theory Spec2Isabelle
  imports Main
begin

section \<open>Python values, exceptions and printed output\<close>

text \<open>
  The script \<^verbatim>\<open>generate_signature.py\<close> works on the values that the exchange SDK
  returns: parsed JSON, that is \<^verbatim>\<open>None\<close>, booleans, integers, floats, strings,
  lists and dictionaries with string keys. A dictionary is an association list
  (looked up with \<open>map_of\<close>). Python floats are IEEE doubles; they are kept abstract as
  the type parameter \<open>'f\<close>, and every operation on them that the script uses is a
  field of the record \<open>pylib\<close> below.

  The second script, \<^verbatim>\<open>test_signing.py\<close>, only calls the signing and hashing functions
  of the SDK and prints whether they raised; nothing of it is defined in the repository,
  and it is not modelled.
\<close>

datatype 'f json =
    JNull
  | JBool bool
  | JInt int
  | JFloat 'f
  | JStr string
  | JArr "'f json list"
  | JObj "(string \<times> 'f json) list"

text \<open>
  The exceptions that the script raises itself (\<^verbatim>\<open>ValueError\<close>) or that Python raises
  while it reads a value (\<^verbatim>\<open>KeyError\<close>, \<^verbatim>\<open>TypeError\<close>, \<^verbatim>\<open>AttributeError\<close>), and
  \<open>LibraryError\<close> for any other \<^verbatim>\<open>Exception\<close> coming out of a library call. All of
  them are subclasses of \<^verbatim>\<open>Exception\<close>. \<open>KeyError\<close> carries the key, the others
  their message.
\<close>

datatype exn =
    ValueError string
  | KeyError string
  | TypeError string
  | AttributeError string
  | LibraryError string

record 'f pylib =
  float_of_str :: "string \<Rightarrow> exn + 'f"  \<comment> \<open>\<^verbatim>\<open>float(s)\<close> for a string\<close>
  float_of_int :: "int \<Rightarrow> exn + 'f"  \<comment> \<open>\<^verbatim>\<open>float(i)\<close> for an integer\<close>
  fsub :: "'f \<Rightarrow> 'f \<Rightarrow> 'f"  \<comment> \<open>float subtraction\<close>
  fnonzero :: "'f \<Rightarrow> bool"  \<comment> \<open>\<^verbatim>\<open>bool(x)\<close> for a float\<close>
  fmt2f :: "'f \<Rightarrow> string"  \<comment> \<open>the format \<^verbatim>\<open>:.2f\<close>\<close>
  py_repr :: "'f json \<Rightarrow> string"  \<comment> \<open>\<^verbatim>\<open>repr(v)\<close>\<close>
  json_dumps :: "'f json \<Rightarrow> string"  \<comment> \<open>\<^verbatim>\<open>json.dumps(v)\<close>\<close>
  json_dumps_indent2 :: "'f json \<Rightarrow> string"  \<comment> \<open>\<^verbatim>\<open>json.dumps(v, indent=2)\<close>\<close>

text \<open>
  \<^verbatim>\<open>str(e)\<close>: the message, and for a \<^verbatim>\<open>KeyError\<close> the \<^verbatim>\<open>repr\<close> of the key (which
  chooses the quotes and escapes by the characters of the key).
\<close>

fun str_exn :: "'f pylib \<Rightarrow> exn \<Rightarrow> string" where
  "str_exn lib (ValueError m) = m"
| "str_exn lib (KeyError k) = py_repr lib (JStr k)"
| "str_exn lib (TypeError m) = m"
| "str_exn lib (AttributeError m) = m"
| "str_exn lib (LibraryError m) = m"

fun type_name :: "'f json \<Rightarrow> string" where
  "type_name JNull = ''NoneType''"
| "type_name (JBool b) = ''bool''"
| "type_name (JInt i) = ''int''"
| "type_name (JFloat x) = ''float''"
| "type_name (JStr s) = ''str''"
| "type_name (JArr xs) = ''list''"
| "type_name (JObj kvs) = ''dict''"

definition quoted :: "string \<Rightarrow> string" where
  "quoted s = [CHR 0x27] @ s @ [CHR 0x27]"

text \<open>Truth value of a Python value, as \<^verbatim>\<open>if v:\<close> and \<^verbatim>\<open>if not v:\<close> test it.\<close>

fun truthy :: "'f pylib \<Rightarrow> 'f json \<Rightarrow> bool" where
  "truthy lib JNull = False"
| "truthy lib (JBool b) = b"
| "truthy lib (JInt i) = (i \<noteq> 0)"
| "truthy lib (JFloat x) = fnonzero lib x"
| "truthy lib (JStr s) = (s \<noteq> [])"
| "truthy lib (JArr xs) = (xs \<noteq> [])"
| "truthy lib (JObj kvs) = (kvs \<noteq> [])"

text \<open>\<^verbatim>\<open>v.get(k, d)\<close>: only a dictionary has the method.\<close>

fun py_get :: "'f json \<Rightarrow> string \<Rightarrow> 'f json \<Rightarrow> exn + 'f json" where
  "py_get (JObj kvs) k d = Inr (case map_of kvs k of None \<Rightarrow> d | Some v \<Rightarrow> v)"
| "py_get v k d =
     Inl (AttributeError (quoted (type_name v) @ '' object has no attribute '' @ quoted ''get''))"

text \<open>\<^verbatim>\<open>v[k]\<close> for a string key \<open>k\<close>.\<close>

fun py_subscript :: "'f json \<Rightarrow> string \<Rightarrow> exn + 'f json" where
  "py_subscript (JObj kvs) k = (case map_of kvs k of None \<Rightarrow> Inl (KeyError k) | Some v \<Rightarrow> Inr v)"
| "py_subscript (JArr xs) k = Inl (TypeError ''list indices must be integers or slices, not str'')"
| "py_subscript (JStr s) k = Inl (TypeError (''string indices must be integers, not '' @ quoted ''str''))"
| "py_subscript v k = Inl (TypeError (quoted (type_name v) @ '' object is not subscriptable''))"

text \<open>
  The elements a \<^verbatim>\<open>for\<close> loop visits: the items of a list, the keys of a
  dictionary, the characters of a string; nothing else here is iterable.
\<close>

fun py_iter :: "'f json \<Rightarrow> exn + 'f json list" where
  "py_iter (JArr xs) = Inr xs"
| "py_iter (JObj kvs) = Inr (map (\<lambda>kv. JStr (fst kv)) kvs)"
| "py_iter (JStr s) = Inr (map (\<lambda>c. JStr [c]) s)"
| "py_iter v = Inl (TypeError (quoted (type_name v) @ '' object is not iterable''))"

fun startswith :: "string \<Rightarrow> string \<Rightarrow> bool" where
  "startswith s [] = True"
| "startswith [] (p # ps) = False"
| "startswith (c # cs) (p # ps) = (c = p \<and> startswith cs ps)"

fun str_contains :: "string \<Rightarrow> string \<Rightarrow> bool" where
  "str_contains [] k = (k = [])"
| "str_contains (c # cs) k = (startswith (c # cs) k \<or> str_contains cs k)"

text \<open>\<^verbatim>\<open>k in v\<close> for a string \<open>k\<close>.\<close>

fun py_in :: "string \<Rightarrow> 'f json \<Rightarrow> exn + bool" where
  "py_in k (JObj kvs) = Inr (map_of kvs k \<noteq> None)"
| "py_in k (JArr xs) = Inr (List.member xs (JStr k))"
| "py_in k (JStr s) = Inr (str_contains s k)"
| "py_in k v = Inl (TypeError (''argument of type '' @ quoted (type_name v) @ '' is not iterable''))"

text \<open>\<^verbatim>\<open>float(v)\<close>.\<close>

fun py_float :: "'f pylib \<Rightarrow> 'f json \<Rightarrow> exn + 'f" where
  "py_float lib (JFloat x) = Inr x"
| "py_float lib (JInt i) = float_of_int lib i"
| "py_float lib (JBool b) = float_of_int lib (if b then 1 else 0)"
| "py_float lib (JStr s) = float_of_str lib s"
| "py_float lib v =
     Inl (TypeError (''float() argument must be a string or a real number, not ''
            @ quoted (type_name v)))"

text \<open>\<^verbatim>\<open>str(v)\<close>, which an f-string applies to the value it formats.\<close>

definition py_str :: "'f pylib \<Rightarrow> 'f json \<Rightarrow> string" where
  "py_str lib v = (case v of JStr s \<Rightarrow> s | _ \<Rightarrow> py_repr lib v)"

subsection \<open>Runs: printed lines and an outcome\<close>

text \<open>
  A run of a piece of the script is the list of lines it printed, in order, and how it
  ended: with a value, or with the exception that left it. A \<^verbatim>\<open>print()\<close> with no
  argument is the empty line.
\<close>

type_synonym 'a run = "string list \<times> (exn + 'a)"

definition ret :: "'a \<Rightarrow> 'a run" where
  "ret x = ([], Inr x)"

definition lift :: "exn + 'a \<Rightarrow> 'a run" where
  "lift r = ([], r)"

definition print :: "string \<Rightarrow> unit run" where
  "print s = ([s], Inr ())"

definition prints :: "string list \<Rightarrow> unit run" where
  "prints ls = (ls, Inr ())"

definition bind_run :: "'a run \<Rightarrow> ('a \<Rightarrow> 'b run) \<Rightarrow> 'b run" where
  "bind_run m f =
     (case m of
        (out, Inl e) \<Rightarrow> (out, Inl e)
      | (out, Inr x) \<Rightarrow> (case f x of (out', r) \<Rightarrow> (out @ out', r)))"

text \<open>\<^verbatim>\<open>try: m  except Exception as e: h e\<close>.\<close>

definition try_except :: "'a run \<Rightarrow> (exn \<Rightarrow> 'a run) \<Rightarrow> 'a run" where
  "try_except m h =
     (case m of
        (out, Inl e) \<Rightarrow> (case h e of (out', r) \<Rightarrow> (out @ out', r))
      | (out, Inr x) \<Rightarrow> (out, Inr x))"

definition then_exn :: "exn + 'a \<Rightarrow> ('a \<Rightarrow> exn + 'b) \<Rightarrow> exn + 'b" where
  "then_exn r f = (case r of Inl e \<Rightarrow> Inl e | Inr x \<Rightarrow> f x)"

subsection \<open>The non-ASCII symbols of the messages, as UTF-8\<close>

definition sym_cross :: string where "sym_cross = [CHR 0xE2, CHR 0x9D, CHR 0x8C]"
definition sym_check :: string where "sym_check = [CHR 0xE2, CHR 0x9C, CHR 0x85]"
definition sym_arrow :: string where "sym_arrow = [CHR 0xE2, CHR 0x86, CHR 0x92]"
definition sym_warning :: string where
  "sym_warning = [CHR 0xE2, CHR 0x9A, CHR 0xA0, CHR 0xEF, CHR 0xB8, CHR 0x8F]"
definition sym_antenna :: string where "sym_antenna = [CHR 0xF0, CHR 0x9F, CHR 0x93, CHR 0xA1]"
definition sym_money :: string where "sym_money = [CHR 0xF0, CHR 0x9F, CHR 0x92, CHR 0xB0]"
definition sym_glass :: string where "sym_glass = [CHR 0xF0, CHR 0x9F, CHR 0x94, CHR 0x8D]"
definition sym_clipboard :: string where "sym_clipboard = [CHR 0xF0, CHR 0x9F, CHR 0x93, CHR 0x8B]"
definition sym_pin :: string where "sym_pin = [CHR 0xF0, CHR 0x9F, CHR 0x93, CHR 0x8C]"
definition sym_lock :: string where "sym_lock = [CHR 0xF0, CHR 0x9F, CHR 0x94, CHR 0x90]"
definition sym_outbox :: string where "sym_outbox = [CHR 0xF0, CHR 0x9F, CHR 0x93, CHR 0xA4]"
definition sym_bulb :: string where "sym_bulb = [CHR 0xF0, CHR 0x9F, CHR 0x92, CHR 0xA1]"
definition box_h :: string where "box_h = [CHR 0xE2, CHR 0x95, CHR 0x90]"
definition box_v :: string where "box_v = [CHR 0xE2, CHR 0x95, CHR 0x91]"
definition box_tl :: string where "box_tl = [CHR 0xE2, CHR 0x95, CHR 0x94]"
definition box_tr :: string where "box_tr = [CHR 0xE2, CHR 0x95, CHR 0x97]"
definition box_bl :: string where "box_bl = [CHR 0xE2, CHR 0x95, CHR 0x9A]"
definition box_br :: string where "box_br = [CHR 0xE2, CHR 0x95, CHR 0x9D]"

section \<open>The order configuration\<close>

record 'f order_config =
  coin :: string
  is_buy :: bool
  sz :: 'f
  limit_px :: 'f
  reduce_only :: bool
  order_type :: "'f json"
  vault_address :: "string option"

text \<open>
  \<^verbatim>\<open>ORDER_CONFIG\<close> as the file sets it. The float literals \<^verbatim>\<open>0.4\<close> and \<^verbatim>\<open>35.084\<close>
  are the two arguments.
\<close>

definition ORDER_CONFIG :: "'f \<Rightarrow> 'f \<Rightarrow> 'f order_config" where
  "ORDER_CONFIG f_0_4 f_35_084 =
     \<lparr> coin = ''HYPE'', is_buy = True, sz = f_0_4, limit_px = f_35_084, reduce_only = False,
       order_type = JObj [(''limit'', JObj [(''tif'', JStr ''Ioc'')])],
       vault_address = None \<rparr>"

text \<open>The four order types that the comment in \<^verbatim>\<open>ORDER_CONFIG\<close> lists as available.\<close>

definition limit_ioc :: "'f json" where
  "limit_ioc = JObj [(''limit'', JObj [(''tif'', JStr ''Ioc'')])]"

definition limit_gtc :: "'f json" where
  "limit_gtc = JObj [(''limit'', JObj [(''tif'', JStr ''Gtc'')])]"

definition limit_alo :: "'f json" where
  "limit_alo = JObj [(''limit'', JObj [(''tif'', JStr ''Alo'')])]"

definition market :: "'f json" where
  "market = JObj [(''market'', JObj [])]"

section \<open>Order-type information (lines 153 to 163)\<close>

text \<open>\<^verbatim>\<open>order_type.get("limit", {}).get("tif")\<close>\<close>

definition limit_tif :: "'f json \<Rightarrow> exn + 'f json" where
  "limit_tif ot = then_exn (py_get ot ''limit'' (JObj [])) (\<lambda>l. py_get l ''tif'' JNull)"

definition label_ioc :: string where
  "label_ioc = ''   '' @ sym_arrow @ '' IOC: Executes immediately or cancels (requires less margin)''"

definition label_gtc :: string where
  "label_gtc = ''   '' @ sym_arrow
     @ '' GTC: Stays on order book until filled or canceled (requires more margin)''"

definition label_alo :: string where
  "label_alo = ''   '' @ sym_arrow
     @ '' ALO: Post Only - adds liquidity, gets maker rebate (requires less margin)''"

definition label_market :: string where
  "label_market = ''   '' @ sym_arrow @ '' Market: Executes at best available price immediately''"

text \<open>The \<^verbatim>\<open>if\<close>/\<^verbatim>\<open>elif\<close> chain of lines 155 to 162: it prints a label or nothing.\<close>

definition order_type_label :: "'f pylib \<Rightarrow> 'f json \<Rightarrow> unit run" where
  "order_type_label lib ot =
     bind_run (lift (limit_tif ot)) (\<lambda>t1.
       if t1 = JStr ''Ioc'' then print label_ioc
       else bind_run (lift (limit_tif ot)) (\<lambda>t2.
         if t2 = JStr ''Gtc'' then print label_gtc
         else bind_run (lift (limit_tif ot)) (\<lambda>t3.
           if t3 = JStr ''Alo'' then print label_alo
           else bind_run (lift (py_get ot ''market'' JNull)) (\<lambda>m.
             if truthy lib m then print label_market else ret ()))))"

definition order_type_info :: "'f pylib \<Rightarrow> 'f json \<Rightarrow> unit run" where
  "order_type_info lib ot =
     bind_run (print (sym_pin @ '' Order Type: '' @ json_dumps lib ot)) (\<lambda>_.
     bind_run (order_type_label lib ot) (\<lambda>_.
     print ''''))"

section \<open>The outside world\<close>

text \<open>
  \<^verbatim>\<open>Account.from_key\<close> returns an account object, of which the script reads the
  address only.
\<close>

datatype wallet = Wallet (address: string)

text \<open>
  What the process environment and the SDK answer in one run: the variable
  \<^verbatim>\<open>PRIVATE_KEY\<close>, the key derivation, the two client constructors, the two queries
  and the order submission. Each call returns a value or raises.
\<close>

record 'f services =
  sdk_installed :: bool
  getenv_PRIVATE_KEY :: "string option"
  from_key :: "string \<Rightarrow> exn + wallet"
  new_info :: "exn + unit"
  new_exchange :: "wallet \<Rightarrow> string option \<Rightarrow> exn + unit"
  info_user_state :: "string \<Rightarrow> exn + 'f json"
  info_meta :: "exn + 'f json"
  exchange_order :: "string \<Rightarrow> bool \<Rightarrow> 'f \<Rightarrow> 'f \<Rightarrow> 'f json \<Rightarrow> bool \<Rightarrow> exn + 'f json"

section \<open>Loading the private key (lines 73 to 83)\<close>

definition load_credentials :: "(string \<Rightarrow> exn + wallet) \<Rightarrow> string option \<Rightarrow> exn + wallet" where
  "load_credentials fk private_key =
     (case private_key of
        None \<Rightarrow> Inl (ValueError ''PRIVATE_KEY environment variable not set'')
      | Some k \<Rightarrow>
          if k = [] then Inl (ValueError ''PRIVATE_KEY environment variable not set'')
          else fk (''0x'' @ (if startswith k ''0x'' then drop 2 k else k)))"

text \<open>A hexadecimal key without prefix: at least one digit, and hexadecimal digits only.\<close>

definition hex_digit :: "char \<Rightarrow> bool" where
  "hex_digit c = (c \<in> set ''0123456789abcdefABCDEF'')"

definition hex_key :: "string \<Rightarrow> bool" where
  "hex_key k = (k \<noteq> [] \<and> list_all hex_digit k)"

section \<open>Account state (lines 96 to 118)\<close>

text \<open>
  Lines 98 to 102: the account value, the margin used and the free collateral, read from
  the answer of \<^verbatim>\<open>info.user_state\<close>.
\<close>

definition account_figures :: "'f pylib \<Rightarrow> 'f json \<Rightarrow> exn + ('f \<times> 'f \<times> 'f)" where
  "account_figures lib user_state =
     then_exn (py_get user_state ''marginSummary'' (JObj [])) (\<lambda>margin_summary.
     then_exn (then_exn (py_get margin_summary ''accountValue'' (JInt 0)) (py_float lib))
       (\<lambda>account_value.
     then_exn (then_exn (py_get margin_summary ''totalMarginUsed'' (JInt 0)) (py_float lib))
       (\<lambda>margin_used.
     Inr (account_value, margin_used, fsub lib account_value margin_used))))"

definition line_account_value :: "'f pylib \<Rightarrow> 'f \<Rightarrow> string" where
  "line_account_value lib x = ''   Account Value: $'' @ fmt2f lib x"

definition line_margin_used :: "'f pylib \<Rightarrow> 'f \<Rightarrow> string" where
  "line_margin_used lib x = ''   Margin Used: $'' @ fmt2f lib x"

definition line_free_collateral :: "'f pylib \<Rightarrow> 'f \<Rightarrow> string" where
  "line_free_collateral lib x = ''   Free Collateral: $'' @ fmt2f lib x"

definition line_checking :: string where
  "line_checking = sym_money @ '' Checking Account State...''"

definition line_cross :: string where
  "line_cross = ''   Margin Mode: CROSS MARGIN''"

definition line_isolated :: string where
  "line_isolated = ''   Margin Mode: ISOLATED MARGIN (or no positions)''"

definition line_warning :: "'f pylib \<Rightarrow> exn \<Rightarrow> string" where
  "line_warning lib e =
     ''   '' @ sym_warning @ ''  Could not check account state: '' @ str_exn lib e"

text \<open>Lines 109 to 114: the margin mode.\<close>

definition margin_mode :: "'f pylib \<Rightarrow> 'f json \<Rightarrow> unit run" where
  "margin_mode lib user_state =
     bind_run (lift (py_get user_state ''crossMarginSummary'' (JObj []))) (\<lambda>cross_margin.
       if truthy lib cross_margin then
         bind_run (print line_cross) (\<lambda>_.
         bind_run (lift (then_exn (py_get cross_margin ''accountValue'' (JInt 0)) (py_float lib)))
           (\<lambda>v.
         print (''   Cross Margin Value: $'' @ fmt2f lib v)))
       else print line_isolated)"

text \<open>The body of the \<^verbatim>\<open>try\<close>, lines 98 to 115; \<open>q\<close> is what \<^verbatim>\<open>info.user_state\<close> did.\<close>

definition account_state_body :: "'f pylib \<Rightarrow> exn + 'f json \<Rightarrow> unit run" where
  "account_state_body lib q =
     bind_run (lift q) (\<lambda>user_state.
     bind_run (lift (account_figures lib user_state)) (\<lambda>(account_value, margin_used, free_collateral).
     bind_run (prints [line_account_value lib account_value,
                       line_margin_used lib margin_used,
                       line_free_collateral lib free_collateral]) (\<lambda>_.
     bind_run (margin_mode lib user_state) (\<lambda>_.
     print ''''))))"

definition check_account_state :: "'f pylib \<Rightarrow> exn + 'f json \<Rightarrow> unit run" where
  "check_account_state lib q =
     bind_run (print line_checking) (\<lambda>_.
     try_except (account_state_body lib q) (\<lambda>e. prints [line_warning lib e, '''']))"

section \<open>Asset resolution (lines 122 to 133)\<close>

text \<open>The loop of lines 127 to 130, from index \<open>idx\<close> on.\<close>

fun find_asset :: "string \<Rightarrow> nat \<Rightarrow> 'f json list \<Rightarrow> exn + nat option" where
  "find_asset c idx [] = Inr None"
| "find_asset c idx (asset # rest) =
     (case py_subscript asset ''name'' of
        Inl e \<Rightarrow> Inl e
      | Inr n \<Rightarrow> if n = JStr c then Inr (Some idx) else find_asset c (Suc idx) rest)"

definition err_no_meta :: exn where
  "err_no_meta = ValueError ''Failed to get meta from HyperLiquid''"

definition err_not_found :: "string \<Rightarrow> exn" where
  "err_not_found c = ValueError (''Asset '' @ c @ '' not found in universe'')"

definition resolve_asset :: "'f pylib \<Rightarrow> string \<Rightarrow> 'f json \<Rightarrow> exn + nat" where
  "resolve_asset lib c meta =
     (if \<not> truthy lib meta then Inl err_no_meta
      else
        then_exn (py_subscript meta ''universe'') (\<lambda>universe.
        then_exn (py_iter universe) (\<lambda>assets.
        then_exn (find_asset c 0 assets) (\<lambda>asset_id.
        case asset_id of None \<Rightarrow> Inl (err_not_found c) | Some idx \<Rightarrow> Inr idx))))"

section \<open>The order and the answer of the exchange (lines 139 to 204)\<close>

definition build_order :: "'f pylib \<Rightarrow> 'f order_config \<Rightarrow> nat \<Rightarrow> 'f json" where
  "build_order lib cfg asset_id =
     JObj [(''a'', JInt (int asset_id)),
           (''b'', JBool (is_buy cfg)),
           (''p'', JStr (py_str lib (JFloat (limit_px cfg)))),
           (''s'', JStr (py_str lib (JFloat (sz cfg)))),
           (''r'', JBool (reduce_only cfg)),
           (''t'', order_type cfg)]"

text \<open>One round of the loop of lines 191 to 197.\<close>

definition report_status :: "'f pylib \<Rightarrow> nat \<Rightarrow> 'f json \<Rightarrow> unit run" where
  "report_status lib i status =
     bind_run (lift (py_in ''resting'' status)) (\<lambda>resting.
       if resting then
         bind_run (lift (then_exn (py_subscript status ''resting'')
                           (\<lambda>r. py_get r ''oid'' (JStr ''N/A'')))) (\<lambda>oid.
         print (''   Order '' @ py_str lib (JInt (int i)) @ '': Resting (Order ID: ''
                  @ py_str lib oid @ '')''))
       else bind_run (lift (py_in ''filled'' status)) (\<lambda>filled.
         if filled then print (''   Order '' @ py_str lib (JInt (int i)) @ '': Filled!'')
         else bind_run (lift (py_in ''error'' status)) (\<lambda>err.
           if err then
             bind_run (lift (py_subscript status ''error'')) (\<lambda>msg.
             print (''   Order '' @ py_str lib (JInt (int i)) @ '': Error - '' @ py_str lib msg))
           else ret ())))"

fun report_statuses :: "'f pylib \<Rightarrow> nat \<Rightarrow> 'f json list \<Rightarrow> unit run" where
  "report_statuses lib i [] = ret ()"
| "report_statuses lib i (status # rest) =
     (case report_status lib i status of
        (out, Inl e) \<Rightarrow> (out, Inl e)
      | (out, Inr u) \<Rightarrow> (case report_statuses lib (Suc i) rest of (out', r) \<Rightarrow> (out @ out', r)))"

text \<open>\<^verbatim>\<open>"response" in result and "data" in result["response"]\<close>\<close>

definition has_data :: "'f json \<Rightarrow> exn + bool" where
  "has_data result =
     then_exn (py_in ''response'' result) (\<lambda>a.
       if a then then_exn (py_subscript result ''response'') (py_in ''data'') else Inr False)"

text \<open>\<^verbatim>\<open>result["response"]["data"].get("statuses", [])\<close>, as the loop visits it.\<close>

definition get_statuses :: "'f json \<Rightarrow> exn + 'f json list" where
  "get_statuses result =
     then_exn (py_subscript result ''response'') (\<lambda>r.
     then_exn (py_subscript r ''data'') (\<lambda>d.
     then_exn (py_get d ''statuses'' (JArr [])) py_iter))"

definition line_rule :: string where
  "line_rule = concat (replicate 59 box_h)"

definition line_order_failed :: string where
  "line_order_failed = sym_cross @ '' ORDER FAILED''"

definition line_response :: "'f pylib \<Rightarrow> 'f json \<Rightarrow> string" where
  "line_response lib r = ''   Response: '' @ py_str lib r"

definition closing_lines :: "string list" where
  "closing_lines =
     ['''',
      sym_bulb @ '' Note: The SDK handled all the complexity automatically!'',
      ''   No manual signature generation needed.'']"

text \<open>Lines 181 to 204.\<close>

definition report_result :: "'f pylib \<Rightarrow> 'f json \<Rightarrow> unit run" where
  "report_result lib result =
     bind_run (prints [line_rule,
                       sym_outbox @ '' SDK RESPONSE:'',
                       line_rule,
                       json_dumps_indent2 lib result,
                       '''']) (\<lambda>_.
     bind_run (lift (py_get result ''status'' JNull)) (\<lambda>status.
     bind_run
       (if status = JStr ''ok'' then
          bind_run (print (sym_check @ '' ORDER PLACED SUCCESSFULLY!'')) (\<lambda>_.
          bind_run (lift (has_data result)) (\<lambda>d.
            if d then bind_run (lift (get_statuses result)) (report_statuses lib 0)
            else ret ()))
        else
          bind_run (print line_order_failed) (\<lambda>_.
          bind_run (lift (py_get result ''response'' (JStr ''Unknown error''))) (\<lambda>r.
          print (line_response lib r)))) (\<lambda>_.
     prints closing_lines)))"

section \<open>The workflow\<close>

text \<open>Lines 120 to 204: everything after the account state.\<close>

definition trade :: "'f pylib \<Rightarrow> 'f services \<Rightarrow> 'f order_config \<Rightarrow> unit run" where
  "trade lib sv cfg =
     bind_run (print (sym_glass @ '' Getting Asset ID...'')) (\<lambda>_.
     bind_run (lift (then_exn (info_meta sv) (resolve_asset lib (coin cfg)))) (\<lambda>asset_id.
     bind_run (prints [''   Asset: '' @ coin cfg @ '' (Asset ID: ''
                         @ py_str lib (JInt (int asset_id)) @ '')'',
                       '''',
                       sym_clipboard @ '' Order Details:'',
                       ''   '' @ json_dumps_indent2 lib (build_order lib cfg asset_id),
                       '''']) (\<lambda>_.
     bind_run (order_type_info lib (order_type cfg)) (\<lambda>_.
     bind_run (prints [sym_lock @ '' SDK is handling signing and request formatting...'',
                       ''   (The SDK handles: msgpack encoding, EIP-712 signing, field ordering, etc.)'',
                       '''']) (\<lambda>_.
     bind_run (lift (exchange_order sv (coin cfg) (is_buy cfg) (sz cfg) (limit_px cfg)
                       (order_type cfg) (reduce_only cfg))) (\<lambda>result.
     report_result lib result))))))"

text \<open>Lines 67 to 93: the banner, the key, the wallet and the two SDK clients.\<close>

definition startup :: "'f services \<Rightarrow> 'f order_config \<Rightarrow> wallet run" where
  "startup sv cfg =
     bind_run (prints [box_tl @ concat (replicate 58 box_h) @ box_tr,
                       box_v @ ''   HYPERLIQUID SIGNATURE GENERATOR (FULL SDK)            '' @ box_v,
                       box_bl @ concat (replicate 58 box_h) @ box_br,
                       '''']) (\<lambda>_.
     bind_run (lift (load_credentials (from_key sv) (getenv_PRIVATE_KEY sv))) (\<lambda>wallet.
     bind_run (prints [sym_check @ '' Wallet address: '' @ address wallet,
                       '''',
                       sym_antenna @ '' Initializing HyperLiquid SDK...'']) (\<lambda>_.
     bind_run (lift (new_info sv)) (\<lambda>_.
     bind_run (lift (new_exchange sv wallet (vault_address cfg))) (\<lambda>_.
     bind_run (prints [sym_check @ '' SDK initialized'', '''']) (\<lambda>_.
     ret wallet))))))"

definition main :: "'f pylib \<Rightarrow> 'f services \<Rightarrow> 'f order_config \<Rightarrow> unit run" where
  "main lib sv cfg =
     bind_run (startup sv cfg) (\<lambda>wallet.
     bind_run (check_account_state lib (info_user_state sv (address wallet))) (\<lambda>_.
     trade lib sv cfg))"


section \<open>Notions used to state the properties\<close>

text \<open>The name of an entry of the universe, when the entry is a dictionary that has one.\<close>

definition asset_name :: "'f json \<Rightarrow> 'f json option" where
  "asset_name a = (case a of JObj kvs \<Rightarrow> map_of kvs ''name'' | _ \<Rightarrow> None)"

text \<open>
  The account state \<open>us\<close> (the entries of the dictionary) has a cross-margin summary that
  Python counts as true; for a dictionary that means non-empty.
\<close>

definition cross_margin_present :: "'f pylib \<Rightarrow> (string \<times> 'f json) list \<Rightarrow> bool" where
  "cross_margin_present lib us =
     (case map_of us ''crossMarginSummary'' of None \<Rightarrow> False | Some v \<Rightarrow> truthy lib v)"

section \<open>A small library and a sample run\<close>

text \<open>
  An instance of \<open>pylib\<close> for running the model on concrete inputs: a float is an
  amount in hundredths, held in an integer; a string converts when it reads \<^verbatim>\<open>N\<close> or
  \<^verbatim>\<open>N.DD\<close>; \<^verbatim>\<open>repr\<close> follows Python on \<^verbatim>\<open>None\<close>, booleans, integers, ASCII
  strings, lists and dictionaries; both \<^verbatim>\<open>json.dumps\<close> show a value in one compact
  form.
\<close>

definition digit_char :: "nat \<Rightarrow> char" where
  "digit_char d = (''0123456789'' ! (d mod 10))"

function show_nat :: "nat \<Rightarrow> string" where
  "show_nat n = (if n < 10 then [digit_char n] else show_nat (n div 10) @ [digit_char (n mod 10)])"
  by pat_completeness auto
termination
  by (relation "measure id") auto

definition show_int :: "int \<Rightarrow> string" where
  "show_int i = (if i < 0 then ''-'' @ show_nat (nat (- i)) else show_nat (nat i))"

definition show_cents :: "int \<Rightarrow> string" where
  "show_cents x =
     (if x < 0 then ''-'' else '''') @ show_nat (nat \<bar>x\<bar> div 100) @ ''.''
       @ [digit_char (nat \<bar>x\<bar> div 10 mod 10), digit_char (nat \<bar>x\<bar> mod 10)]"

fun parse_nat :: "nat \<Rightarrow> string \<Rightarrow> nat option" where
  "parse_nat acc [] = Some acc"
| "parse_nat acc (c # cs) =
     (if c \<in> set ''0123456789'' then parse_nat (10 * acc + (of_char c - 48)) cs else None)"

definition cents_of_str :: "string \<Rightarrow> int option" where
  "cents_of_str s =
     (let whole = takeWhile (\<lambda>c. c \<noteq> CHR ''.'') s; frac = drop (length whole + 1) s in
      if whole = [] then None
      else (case parse_nat 0 whole of
              None \<Rightarrow> None
            | Some w \<Rightarrow>
                if length whole = length s then Some (100 * int w)
                else if length frac = 2 then
                  (case parse_nat 0 frac of None \<Rightarrow> None | Some f \<Rightarrow> Some (100 * int w + int f))
                else None))"

fun show_json :: "int json \<Rightarrow> string" where
  "show_json JNull = ''null''"
| "show_json (JBool b) = (if b then ''true'' else ''false'')"
| "show_json (JInt i) = show_int i"
| "show_json (JFloat x) = show_cents x"
| "show_json (JStr s) = [CHR 0x22] @ s @ [CHR 0x22]"
| "show_json (JArr xs) = ''['' @ concat (map (\<lambda>v. show_json v @ '','') xs) @ '']''"
| "show_json (JObj kvs) =
     ''{'' @ concat (map (\<lambda>(k, v). [CHR 0x22] @ k @ [CHR 0x22] @ '':'' @ show_json v @ '','') kvs)
       @ ''}''"

text \<open>
  \<^verbatim>\<open>repr\<close> of a string of ASCII characters: double quotes when the string has an
  apostrophe and no double quote, single quotes otherwise; the backslash, the chosen
  quote and the control characters are escaped. Bytes from 128 on are left as they are.
\<close>

definition hex_char :: "nat \<Rightarrow> char" where
  "hex_char d = (''0123456789abcdef'' ! (d mod 16))"

definition repr_quote :: "string \<Rightarrow> char" where
  "repr_quote s = (if CHR 0x27 \<in> set s \<and> CHR 0x22 \<notin> set s then CHR 0x22 else CHR 0x27)"

definition repr_char :: "char \<Rightarrow> char \<Rightarrow> string" where
  "repr_char q c =
     (if c = CHR 0x5C then [CHR 0x5C, CHR 0x5C]
      else if c = q then [CHR 0x5C, q]
      else if c = CHR 0x0A then [CHR 0x5C, CHR ''n'']
      else if c = CHR 0x0D then [CHR 0x5C, CHR ''r'']
      else if c = CHR 0x09 then [CHR 0x5C, CHR ''t'']
      else if (of_char c :: nat) < 32 \<or> (of_char c :: nat) = 127 then
        [CHR 0x5C, CHR ''x'', hex_char ((of_char c :: nat) div 16), hex_char (of_char c)]
      else [c])"

definition repr_str :: "string \<Rightarrow> string" where
  "repr_str s = [repr_quote s] @ concat (map (repr_char (repr_quote s)) s) @ [repr_quote s]"

fun join :: "string \<Rightarrow> string list \<Rightarrow> string" where
  "join sep [] = []"
| "join sep [x] = x"
| "join sep (x # y # ys) = x @ sep @ join sep (y # ys)"

fun show_repr :: "int json \<Rightarrow> string" where
  "show_repr JNull = ''None''"
| "show_repr (JBool b) = (if b then ''True'' else ''False'')"
| "show_repr (JInt i) = show_int i"
| "show_repr (JFloat x) = show_cents x"
| "show_repr (JStr s) = repr_str s"
| "show_repr (JArr xs) = ''['' @ join '', '' (map show_repr xs) @ '']''"
| "show_repr (JObj kvs) =
     ''{'' @ join '', '' (map (\<lambda>(k, v). repr_str k @ '': '' @ show_repr v) kvs) @ ''}''"

definition cents_lib :: "int pylib" where
  "cents_lib =
     \<lparr> float_of_str = (\<lambda>s. case cents_of_str s of
                              None \<Rightarrow> Inl (ValueError (''could not convert string to float: ''
                                                      @ quoted s))
                            | Some x \<Rightarrow> Inr x),
       float_of_int = (\<lambda>i. Inr (100 * i)),
       fsub = (\<lambda>x y. x - y),
       fnonzero = (\<lambda>x. x \<noteq> 0),
       fmt2f = show_cents,
       py_repr = show_repr,
       json_dumps = show_json,
       json_dumps_indent2 = show_json \<rparr>"

text \<open>A key derivation for the sample run: the address is the key it was given.\<close>

definition sample_from_key :: "string \<Rightarrow> exn + wallet" where
  "sample_from_key k =
     (if startswith k ''0x'' \<and> hex_key (drop 2 k) then Inr (Wallet k)
      else Inl (LibraryError ''invalid private key''))"

definition sample_assets :: "int json list" where
  "sample_assets =
     [JObj [(''name'', JStr ''BTC''), (''szDecimals'', JInt 5)],
      JObj [(''name'', JStr ''ETH''), (''szDecimals'', JInt 4)],
      JObj [(''name'', JStr ''HYPE''), (''szDecimals'', JInt 2)],
      JObj [(''name'', JStr ''HYPE''), (''szDecimals'', JInt 0)]]"

definition sample_margin_summary :: "(string \<times> int json) list" where
  "sample_margin_summary =
     [(''accountValue'', JStr ''1250.50''), (''totalMarginUsed'', JStr ''250.25'')]"

definition sample_account :: "(string \<times> int json) list" where
  "sample_account =
     [(''marginSummary'', JObj sample_margin_summary),
      (''crossMarginSummary'', JObj [(''accountValue'', JStr ''1250.50'')])]"

definition sample_rejection :: "(string \<times> int json) list" where
  "sample_rejection = [(''status'', JStr ''err''), (''response'', JStr ''Insufficient margin'')]"

text \<open>
  A run in which the account query raises, the asset is found and the exchange rejects
  the order.
\<close>

definition sample_services :: "int services" where
  "sample_services =
     \<lparr> sdk_installed = True,
       getenv_PRIVATE_KEY = Some ''0x1f'',
       from_key = sample_from_key,
       new_info = Inr (),
       new_exchange = (\<lambda>w v. Inr ()),
       info_user_state = (\<lambda>a. Inl (LibraryError ''connection refused'')),
       info_meta = Inr (JObj [(''universe'', JArr sample_assets)]),
       exchange_order = (\<lambda>c b s p t r. Inr (JObj sample_rejection)) \<rparr>"

text \<open>The configuration of the file; in hundredths the price 35.084 is cut to 35.08.\<close>

definition sample_config :: "int order_config" where
  "sample_config = ORDER_CONFIG 40 3508"

section \<open>Properties\<close>

subsection \<open>Order-type labels\<close>

lemma order_type_label_limits:
  "order_type_label lib limit_ioc = ([label_ioc], Inr ())"
  "order_type_label lib limit_gtc = ([label_gtc], Inr ())"
  "order_type_label lib limit_alo = ([label_alo], Inr ())"
  by (simp_all add: order_type_label_def limit_tif_def then_exn_def bind_run_def lift_def
      print_def limit_ioc_def limit_gtc_def limit_alo_def)

lemma labels_distinct:
  "distinct [label_ioc, label_gtc, label_alo, label_market]"
  by (simp add: label_ioc_def label_gtc_def label_alo_def label_market_def)

text \<open>
  C1. Each of the four order types is to print exactly one label of its own. The three
  limit types do, and the four labels differ from each other. For the market type
  \<^verbatim>\<open>{"market": {}}\<close> the last test of the chain is \<^verbatim>\<open>order_type.get("market")\<close>,
  which returns the empty dictionary: that is false in Python, the branch is not taken,
  and no label is printed at all.
\<close>

theorem market_prints_no_label:
  "order_type_label lib market = ([], Inr ())
   \<and> order_type_label lib limit_ioc = ([label_ioc], Inr ())
   \<and> order_type_label lib limit_gtc = ([label_gtc], Inr ())
   \<and> order_type_label lib limit_alo = ([label_alo], Inr ())
   \<and> distinct [label_ioc, label_gtc, label_alo, label_market]"
proof -
  have "order_type_label lib market = ([], Inr ())"
    by (simp add: order_type_label_def limit_tif_def then_exn_def bind_run_def lift_def
        ret_def market_def)
  with order_type_label_limits [of lib] labels_distinct show ?thesis by simp
qed

subsection \<open>The key prefix\<close>

lemma hex_key_no_prefix: "hex_key k \<Longrightarrow> \<not> startswith k ''0x''"
proof (cases k)
  case Nil
  then show ?thesis by simp
next
  case (Cons c cs)
  assume h: "hex_key k"
  show ?thesis
  proof (cases cs)
    case Nil
    with Cons show ?thesis by simp
  next
    case (Cons d ds)
    with h \<open>k = c # cs\<close> have "hex_digit d" by (simp add: hex_key_def)
    then have "d \<noteq> CHR ''x''" by (auto simp: hex_digit_def)
    with Cons \<open>k = c # cs\<close> show ?thesis by simp
  qed
qed

text \<open>
  C3. For a hexadecimal key \<open>k\<close>, the key with and without the prefix \<^verbatim>\<open>0x\<close> gives
  the same result of credential loading (the same wallet, hence the same address, or the
  same error of the key derivation), and the whole run is the same.
\<close>

theorem prefix_does_not_change_wallet:
  assumes "hex_key k"
  shows "load_credentials fk (Some (''0x'' @ k)) = load_credentials fk (Some k)
    \<and> main lib (sv\<lparr>getenv_PRIVATE_KEY := Some (''0x'' @ k)\<rparr>) cfg
        = main lib (sv\<lparr>getenv_PRIVATE_KEY := Some k\<rparr>) cfg"
proof -
  from assms have ne: "k \<noteq> []" by (simp add: hex_key_def)
  have eq: "load_credentials fk (Some (''0x'' @ k)) = load_credentials fk (Some k)" for fk
    using hex_key_no_prefix [OF assms] ne by (simp add: load_credentials_def)
  have eq': "load_credentials fk (Some (CHR ''0'' # CHR ''x'' # k)) = load_credentials fk (Some k)"
    for fk using eq [of fk] by simp
  have "main lib (sv\<lparr>getenv_PRIVATE_KEY := Some (''0x'' @ k)\<rparr>) cfg
      = main lib (sv\<lparr>getenv_PRIVATE_KEY := Some k\<rparr>) cfg"
    by (simp add: main_def startup_def trade_def eq')
  with eq show ?thesis by blast
qed

theorem prefix_does_not_change_wallet_witness:
  "hex_key ''1f''
   \<and> load_credentials sample_from_key (Some ''0x1f'') = Inr (Wallet ''0x1f'')
   \<and> load_credentials sample_from_key (Some ''1f'') = Inr (Wallet ''0x1f'')"
  using prefix_does_not_change_wallet
    [of "''1f''" sample_from_key cents_lib sample_services sample_config]
  by (simp add: hex_key_def hex_digit_def load_credentials_def sample_from_key_def)

subsection \<open>Asset resolution\<close>

lemma subscript_name: "asset_name a = Some n \<Longrightarrow> py_subscript a ''name'' = Inr n"
  by (cases a) (simp_all add: asset_name_def)

lemma find_asset_absent:
  "\<forall>a\<in>set xs. asset_name a \<noteq> None \<Longrightarrow> \<forall>a\<in>set xs. asset_name a \<noteq> Some (JStr c)
   \<Longrightarrow> find_asset c idx xs = Inr None"
proof (induction xs arbitrary: idx)
  case Nil
  then show ?case by simp
next
  case (Cons a xs)
  then obtain n where n: "asset_name a = Some n" by auto
  with Cons.prems have "n \<noteq> JStr c" by auto
  with n Cons show ?case by (simp add: subscript_name)
qed

lemma find_asset_first:
  "\<forall>a\<in>set xs. asset_name a \<noteq> None \<Longrightarrow> \<exists>a\<in>set xs. asset_name a = Some (JStr c)
   \<Longrightarrow> \<exists>i<length xs. find_asset c idx xs = Inr (Some (idx + i))
         \<and> asset_name (xs ! i) = Some (JStr c)
         \<and> (\<forall>j<i. asset_name (xs ! j) \<noteq> Some (JStr c))"
proof (induction xs arbitrary: idx)
  case Nil
  then show ?case by simp
next
  case (Cons a xs)
  then obtain n where n: "asset_name a = Some n" by auto
  show ?case
  proof (cases "n = JStr c")
    case True
    with n have "find_asset c idx (a # xs) = Inr (Some (idx + 0))"
      by (simp add: subscript_name)
    with n True show ?thesis by force
  next
    case False
    with n Cons.prems have "\<exists>b\<in>set xs. asset_name b = Some (JStr c)" by auto
    moreover from Cons.prems have "\<forall>b\<in>set xs. asset_name b \<noteq> None" by simp
    ultimately obtain i where i: "i < length xs"
      "find_asset c (Suc idx) xs = Inr (Some (Suc idx + i))"
      "asset_name (xs ! i) = Some (JStr c)"
      "\<forall>j<i. asset_name (xs ! j) \<noteq> Some (JStr c)"
      using Cons.IH [of "Suc idx"] by blast
    have "find_asset c idx (a # xs) = Inr (Some (idx + Suc i))"
      using n False i(2) by (simp add: subscript_name)
    moreover have "\<forall>j<Suc i. asset_name ((a # xs) ! j) \<noteq> Some (JStr c)"
      using n False i(4) by (auto simp: less_Suc_eq_0_disj)
    ultimately show ?thesis using i(1,3) by (intro exI [of _ "Suc i"]) simp
  qed
qed

lemma resolve_asset_list:
  "map_of m ''universe'' = Some (JArr assets) \<Longrightarrow>
   resolve_asset lib c (JObj m) =
     then_exn (find_asset c 0 assets)
       (\<lambda>asset_id. case asset_id of None \<Rightarrow> Inl (err_not_found c) | Some idx \<Rightarrow> Inr idx)"
  by (auto simp: resolve_asset_def then_exn_def)

text \<open>
  C4. When the answer of the meta query is a dictionary whose universe is a list of
  entries that all have a name, and some entry is named as the configured symbol,
  resolution returns the position of the first such entry.
\<close>

theorem resolve_first_match:
  assumes "map_of m ''universe'' = Some (JArr assets)"
    and "\<forall>a\<in>set assets. asset_name a \<noteq> None"
    and "\<exists>a\<in>set assets. asset_name a = Some (JStr c)"
  shows "\<exists>i<length assets. resolve_asset lib c (JObj m) = Inr i
           \<and> asset_name (assets ! i) = Some (JStr c)
           \<and> (\<forall>j<i. asset_name (assets ! j) \<noteq> Some (JStr c))"
proof -
  from find_asset_first [OF assms(2,3), of 0]
  obtain i where i: "i < length assets" "find_asset c 0 assets = Inr (Some i)"
    "asset_name (assets ! i) = Some (JStr c)"
    "\<forall>j<i. asset_name (assets ! j) \<noteq> Some (JStr c)"
    by auto
  have "resolve_asset lib c (JObj m) = Inr i"
    by (simp add: resolve_asset_list [OF assms(1)] i(2) then_exn_def)
  with i show ?thesis by blast
qed

theorem resolve_first_match_witness:
  "map_of [(''universe'', JArr sample_assets)] ''universe'' = Some (JArr sample_assets)
   \<and> list_all (\<lambda>a. asset_name a \<noteq> None) sample_assets
   \<and> list_ex (\<lambda>a. asset_name a = Some (JStr ''HYPE'')) sample_assets
   \<and> resolve_asset cents_lib ''HYPE'' (JObj [(''universe'', JArr sample_assets)]) = Inr 2"
  using resolve_first_match
    [of "[(''universe'', JArr sample_assets)]" sample_assets "''HYPE''" cents_lib]
  by (simp add: asset_name_def resolve_asset_def then_exn_def sample_assets_def)

lemma py_subscript_error: "py_subscript a k = Inl e \<Longrightarrow> e \<noteq> err_no_meta"
  by (cases a) (auto simp: err_no_meta_def split: option.splits)

lemma py_iter_error: "py_iter a = Inl e \<Longrightarrow> e \<noteq> err_no_meta"
  by (cases a) (auto simp: err_no_meta_def)

lemma find_asset_error: "find_asset c idx xs = Inl e \<Longrightarrow> e \<noteq> err_no_meta"
proof (induction xs arbitrary: idx)
  case Nil
  then show ?case by simp
next
  case (Cons a xs)
  then show ?case
    by (auto split: sum.splits if_splits dest: py_subscript_error)
qed

lemma err_not_found_other: "err_not_found c \<noteq> err_no_meta"
  by (simp add: err_not_found_def err_no_meta_def)

lemma resolve_no_meta_iff:
  "resolve_asset lib c meta = Inl err_no_meta \<longleftrightarrow> \<not> truthy lib meta"
proof (cases "truthy lib meta")
  case False
  then show ?thesis by (simp add: resolve_asset_def)
next
  case True
  have "resolve_asset lib c meta \<noteq> Inl err_no_meta"
  proof
    assume "resolve_asset lib c meta = Inl err_no_meta"
    with True show False
      by (auto simp: resolve_asset_def then_exn_def err_not_found_other
          split: sum.splits option.splits
          dest: py_subscript_error py_iter_error find_asset_error)
  qed
  with True show ?thesis by simp
qed

text \<open>
  C2, as amended. Resolution raises the error \<open>err_no_meta\<close> exactly for an answer of
  the meta query that Python counts as false (\<^verbatim>\<open>None\<close>, an empty dictionary). For an
  answer whose universe is a list of named entries it raises \<open>err_not_found\<close> when no
  entry has the configured name, also when the list is empty, and returns an index
  otherwise.
\<close>

theorem resolve_failure_modes:
  "(resolve_asset lib c meta = Inl err_no_meta \<longleftrightarrow> \<not> truthy lib meta)
   \<and> (map_of m ''universe'' = Some (JArr assets) \<and> (\<forall>a\<in>set assets. asset_name a \<noteq> None) \<longrightarrow>
        (if \<exists>a\<in>set assets. asset_name a = Some (JStr c)
         then \<exists>i. resolve_asset lib c (JObj m) = Inr i
         else resolve_asset lib c (JObj m) = Inl (err_not_found c)))"
proof (intro conjI impI)
  show "resolve_asset lib c meta = Inl err_no_meta \<longleftrightarrow> \<not> truthy lib meta"
    by (rule resolve_no_meta_iff)
next
  assume a: "map_of m ''universe'' = Some (JArr assets) \<and> (\<forall>a\<in>set assets. asset_name a \<noteq> None)"
  show "if \<exists>a\<in>set assets. asset_name a = Some (JStr c)
         then \<exists>i. resolve_asset lib c (JObj m) = Inr i
         else resolve_asset lib c (JObj m) = Inl (err_not_found c)"
  proof (cases "\<exists>a\<in>set assets. asset_name a = Some (JStr c)")
    case True
    from find_asset_first [OF conjunct2 [OF a] True, of 0]
    obtain i where "find_asset c 0 assets = Inr (Some i)" by auto
    then have "resolve_asset lib c (JObj m) = Inr i"
      by (simp add: resolve_asset_list [OF conjunct1 [OF a]] then_exn_def)
    with True show ?thesis by auto
  next
    case False
    then have "find_asset c 0 assets = Inr None"
      using find_asset_absent [of assets c 0] a by blast
    then have "resolve_asset lib c (JObj m) = Inl (err_not_found c)"
      by (simp add: resolve_asset_list [OF conjunct1 [OF a]] then_exn_def)
    with False show ?thesis by auto
  qed
qed

theorem resolve_failure_modes_witness:
  "\<not> truthy cents_lib (JObj [])
   \<and> resolve_asset cents_lib ''HYPE'' (JObj []) = Inl err_no_meta
   \<and> resolve_asset cents_lib ''HYPE'' (JObj [(''universe'', JArr [JObj [(''name'', JStr ''BTC'')]])])
       = Inl (err_not_found ''HYPE'')
   \<and> resolve_asset cents_lib ''HYPE'' (JObj [(''universe'', JArr [])])
       = Inl (err_not_found ''HYPE'')"
  using resolve_failure_modes [where lib = cents_lib and meta = "JObj []" and c = "''HYPE''"
      and m = "[(''universe'', JArr [JObj [(''name'', JStr ''BTC'')]])]"
      and assets = "[JObj [(''name'', JStr ''BTC'')]]"]
    resolve_failure_modes [where lib = cents_lib and meta = "JObj []" and c = "''HYPE''"
      and m = "[(''universe'', JArr [])]" and assets = "[]"]
  by (simp add: asset_name_def)

text \<open>
  C2 as stated fails: an answer with an empty universe raises the error of the missing
  asset, not the one of the missing meta data; and an answer without universe raises a
  \<^verbatim>\<open>KeyError\<close>, a third way to fail.
\<close>

theorem empty_universe_counterexample:
  "resolve_asset cents_lib ''HYPE'' (JObj [(''universe'', JArr [])])
     = Inl (ValueError ''Asset HYPE not found in universe'')
   \<and> resolve_asset cents_lib ''HYPE'' (JObj [(''universe'', JArr [])])
     \<noteq> Inl (ValueError ''Failed to get meta from HyperLiquid'')
   \<and> resolve_asset cents_lib ''HYPE'' (JObj [(''exchange'', JStr ''HyperLiquid'')])
     = Inl (KeyError ''universe'')"
  by (simp add: resolve_asset_def then_exn_def err_not_found_def)

subsection \<open>Sequencing\<close>

lemma bind_run_Inr: "snd m = Inr x \<Longrightarrow> bind_run m f = (fst m @ fst (f x), snd (f x))"
  by (cases m) (simp add: bind_run_def split: prod.splits)

lemma bind_run_Inl: "snd m = Inl e \<Longrightarrow> bind_run m f = (fst m, Inl e)"
  by (cases m) (simp add: bind_run_def)

lemma bind_run_prints: "bind_run (prints ls) f = (ls @ fst (f ()), snd (f ()))"
  by (simp add: bind_run_Inr prints_def)

lemma bind_run_print: "bind_run (print l) f = (l # fst (f ()), snd (f ()))"
  by (simp add: bind_run_Inr print_def)

lemma bind_run_lift_Inr: "bind_run (lift (Inr x)) f = f x"
  by (simp add: bind_run_def lift_def)

lemma bind_run_lift_Inl: "bind_run (lift (Inl e)) f = ([], Inl e)"
  by (simp add: bind_run_def lift_def)

lemma fst_bind_run: "\<exists>tail. fst (bind_run m f) = fst m @ tail"
  by (cases m) (auto simp: bind_run_def split: sum.splits prod.splits)

lemma fst_try_except: "\<exists>tail. fst (try_except m h) = fst m @ tail"
  by (cases m) (auto simp: try_except_def split: sum.splits prod.splits)

lemma try_except_prints: "snd (try_except m (\<lambda>e. prints (h e))) = Inr ()"
  by (cases m) (auto simp: try_except_def prints_def split: sum.splits)

subsection \<open>The account state\<close>

lemma margin_mode_first:
  "\<exists>rest r. margin_mode lib (JObj us)
     = ((if cross_margin_present lib us then line_cross else line_isolated) # rest, r)"
proof (cases "cross_margin_present lib us")
  case True
  then show ?thesis
    by (simp add: margin_mode_def cross_margin_present_def bind_run_lift_Inr bind_run_print
        split: option.splits)
next
  case False
  then show ?thesis
    by (simp add: margin_mode_def cross_margin_present_def bind_run_lift_Inr print_def
        split: option.splits)
qed

lemma check_account_state_figures:
  assumes "account_figures lib (JObj us) = Inr (x, y, f)"
  shows "\<exists>rest. fst (check_account_state lib (Inr (JObj us)))
     = [line_checking, line_account_value lib x, line_margin_used lib y,
        line_free_collateral lib f,
        if cross_margin_present lib us then line_cross else line_isolated] @ rest"
proof -
  obtain rest r where mm: "margin_mode lib (JObj us)
      = ((if cross_margin_present lib us then line_cross else line_isolated) # rest, r)"
    using margin_mode_first by blast
  obtain t1 where t1: "fst (bind_run (margin_mode lib (JObj us)) (\<lambda>_. print []))
      = fst (margin_mode lib (JObj us)) @ t1"
    using fst_bind_run by blast
  have body: "fst (account_state_body lib (Inr (JObj us)))
      = [line_account_value lib x, line_margin_used lib y, line_free_collateral lib f]
        @ fst (margin_mode lib (JObj us)) @ t1"
    using assms t1
    by (simp add: account_state_body_def bind_run_lift_Inr bind_run_prints)
  obtain t2 where t2: "fst (try_except (account_state_body lib (Inr (JObj us)))
        (\<lambda>e. prints [line_warning lib e, []]))
      = fst (account_state_body lib (Inr (JObj us))) @ t2"
    using fst_try_except by blast
  have "fst (check_account_state lib (Inr (JObj us)))
      = line_checking # fst (account_state_body lib (Inr (JObj us))) @ t2"
    using t2 by (simp add: check_account_state_def bind_run_print line_checking_def)
  with body mm show ?thesis by simp
qed

lemma account_figures_dict:
  assumes "py_float lib (case map_of ms ''accountValue'' of None \<Rightarrow> JInt 0 | Some v \<Rightarrow> v) = Inr x"
    and "py_float lib (case map_of ms ''totalMarginUsed'' of None \<Rightarrow> JInt 0 | Some v \<Rightarrow> v) = Inr y"
    and "map_of us ''marginSummary'' = Some (JObj ms) \<or> (map_of us ''marginSummary'' = None \<and> ms = [])"
  shows "account_figures lib (JObj us) = Inr (x, y, fsub lib x y)"
  using assms by (auto simp: account_figures_def then_exn_def)

text \<open>
  C5. When the margin summary holds an account value and a margin used that \<^verbatim>\<open>float\<close>
  converts to \<open>x\<close> and \<open>y\<close> (of any sign), the free collateral that the inspector
  computes is the float difference \<open>x - y\<close>, and the three figures it prints after the
  heading are \<open>x\<close>, \<open>y\<close> and that difference.
\<close>

theorem free_collateral_is_difference:
  assumes "map_of us ''marginSummary'' = Some (JObj ms)"
    and "map_of ms ''accountValue'' = Some a" and "py_float lib a = Inr x"
    and "map_of ms ''totalMarginUsed'' = Some u" and "py_float lib u = Inr y"
  shows "account_figures lib (JObj us) = Inr (x, y, fsub lib x y)
    \<and> take 4 (fst (check_account_state lib (Inr (JObj us))))
        = [line_checking, line_account_value lib x, line_margin_used lib y,
           line_free_collateral lib (fsub lib x y)]"
proof -
  have fig: "account_figures lib (JObj us) = Inr (x, y, fsub lib x y)"
    using assms by (intro account_figures_dict [of lib ms]) simp_all
  from check_account_state_figures [OF fig] obtain rest where
    "fst (check_account_state lib (Inr (JObj us)))
     = [line_checking, line_account_value lib x, line_margin_used lib y,
        line_free_collateral lib (fsub lib x y),
        if cross_margin_present lib us then line_cross else line_isolated] @ rest"
    by blast
  then have "take 4 (fst (check_account_state lib (Inr (JObj us))))
     = [line_checking, line_account_value lib x, line_margin_used lib y,
        line_free_collateral lib (fsub lib x y)]"
    by simp
  with fig show ?thesis by blast
qed

theorem free_collateral_is_difference_witness:
  "map_of sample_account ''marginSummary'' = Some (JObj sample_margin_summary)
   \<and> map_of sample_margin_summary ''accountValue'' = Some (JStr ''1250.50'')
   \<and> py_float cents_lib (JStr ''1250.50'') = Inr 125050
   \<and> map_of sample_margin_summary ''totalMarginUsed'' = Some (JStr ''250.25'')
   \<and> py_float cents_lib (JStr ''250.25'') = Inr 25025
   \<and> account_figures cents_lib (JObj sample_account) = Inr (125050, 25025, 100025)
   \<and> take 4 (fst (check_account_state cents_lib (Inr (JObj sample_account))))
        = [line_checking, ''   Account Value: $1250.50'', ''   Margin Used: $250.25'',
           ''   Free Collateral: $1000.25'']"
proof -
  have a: "py_float cents_lib (JStr ''1250.50'') = Inr 125050"
    by (simp add: cents_lib_def cents_of_str_def)
  have u: "py_float cents_lib (JStr ''250.25'') = Inr 25025"
    by (simp add: cents_lib_def cents_of_str_def)
  have f: "fsub cents_lib 125050 25025 = 100025"
    by (simp add: cents_lib_def)
  have s: "fmt2f cents_lib 125050 = ''1250.50''" "fmt2f cents_lib 25025 = ''250.25''"
    "fmt2f cents_lib 100025 = ''1000.25''"
    by (simp_all add: cents_lib_def show_cents_def digit_char_def)
  have m: "map_of sample_account ''marginSummary'' = Some (JObj sample_margin_summary)"
    "map_of sample_margin_summary ''accountValue'' = Some (JStr ''1250.50'')"
    "map_of sample_margin_summary ''totalMarginUsed'' = Some (JStr ''250.25'')"
    by (simp_all add: sample_account_def sample_margin_summary_def)
  from free_collateral_is_difference [OF m(1) m(2) a m(3) u] a u m show ?thesis
    by (simp only: f s line_account_value_def line_margin_used_def line_free_collateral_def
        append.simps simp_thms)
qed

text \<open>
  C10. A missing margin summary, or a missing field of it, does not raise: the missing
  value is \<^verbatim>\<open>float(0)\<close>. When that is a zero \<open>z\<close> with \<open>z - z = z\<close>, as for IEEE
  doubles, an account state without margin summary, or with one that has neither field,
  gives the three figures \<open>z\<close>, and the empty account state is reported in full without
  a warning.
\<close>

theorem missing_figures_default_to_zero:
  assumes "float_of_int lib 0 = Inr z" and "fsub lib z z = z"
  shows "(map_of us ''marginSummary'' = None
          \<or> (map_of us ''marginSummary'' = Some (JObj ms)
              \<and> map_of ms ''accountValue'' = None \<and> map_of ms ''totalMarginUsed'' = None)
          \<longrightarrow> account_figures lib (JObj us) = Inr (z, z, z)
              \<and> take 4 (fst (check_account_state lib (Inr (JObj us))))
                  = [line_checking, line_account_value lib z, line_margin_used lib z,
                     line_free_collateral lib z])
    \<and> (map_of us ''marginSummary'' = Some (JObj ms) \<and> map_of ms ''accountValue'' = None
          \<and> map_of ms ''totalMarginUsed'' = Some u \<and> py_float lib u = Inr y
          \<longrightarrow> account_figures lib (JObj us) = Inr (z, y, fsub lib z y))
    \<and> (map_of us ''marginSummary'' = Some (JObj ms) \<and> map_of ms ''accountValue'' = Some a
          \<and> py_float lib a = Inr x \<and> map_of ms ''totalMarginUsed'' = None
          \<longrightarrow> account_figures lib (JObj us) = Inr (x, z, fsub lib x z))
    \<and> check_account_state lib (Inr (JObj []))
        = ([line_checking, line_account_value lib z, line_margin_used lib z,
            line_free_collateral lib z, line_isolated, ''''], Inr ())"
proof (intro conjI impI)
  assume h: "map_of us ''marginSummary'' = None
          \<or> (map_of us ''marginSummary'' = Some (JObj ms)
              \<and> map_of ms ''accountValue'' = None \<and> map_of ms ''totalMarginUsed'' = None)"
  then show fig: "account_figures lib (JObj us) = Inr (z, z, z)"
    using assms by (auto simp: account_figures_def then_exn_def)
  from check_account_state_figures [OF fig]
  show "take 4 (fst (check_account_state lib (Inr (JObj us))))
      = [line_checking, line_account_value lib z, line_margin_used lib z,
         line_free_collateral lib z]"
    by auto
next
  assume "map_of us ''marginSummary'' = Some (JObj ms) \<and> map_of ms ''accountValue'' = None
          \<and> map_of ms ''totalMarginUsed'' = Some u \<and> py_float lib u = Inr y"
  then show "account_figures lib (JObj us) = Inr (z, y, fsub lib z y)"
    using assms by (auto simp: account_figures_def then_exn_def)
next
  assume "map_of us ''marginSummary'' = Some (JObj ms) \<and> map_of ms ''accountValue'' = Some a
          \<and> py_float lib a = Inr x \<and> map_of ms ''totalMarginUsed'' = None"
  then show "account_figures lib (JObj us) = Inr (x, z, fsub lib x z)"
    using assms by (auto simp: account_figures_def then_exn_def)
next
  have fig: "account_figures lib (JObj []) = Inr (z, z, z)"
    using assms by (simp add: account_figures_def then_exn_def)
  have mm: "margin_mode lib (JObj []) = ([line_isolated], Inr ())"
    by (simp add: margin_mode_def bind_run_lift_Inr print_def)
  have "account_state_body lib (Inr (JObj []))
      = ([line_account_value lib z, line_margin_used lib z, line_free_collateral lib z,
          line_isolated, ''''], Inr ())"
    by (simp add: account_state_body_def bind_run_lift_Inr fig bind_run_prints mm
        bind_run_Inr [where x = "()"] print_def)
  then show "check_account_state lib (Inr (JObj []))
        = ([line_checking, line_account_value lib z, line_margin_used lib z,
            line_free_collateral lib z, line_isolated, ''''], Inr ())"
    by (simp add: check_account_state_def bind_run_print try_except_def)
qed

theorem missing_figures_default_to_zero_witness:
  "float_of_int cents_lib 0 = Inr 0 \<and> fsub cents_lib 0 0 = 0
   \<and> map_of [(''withdrawable'', JStr ''0.0'')] ''marginSummary'' = (None :: int json option)
   \<and> account_figures cents_lib (JObj [(''withdrawable'', JStr ''0.0'')]) = Inr (0, 0, 0)
   \<and> account_figures cents_lib
         (JObj [(''marginSummary'', JObj [(''totalMarginUsed'', JStr ''250.25'')])])
       = Inr (0, 25025, - 25025)
   \<and> account_figures cents_lib
         (JObj [(''marginSummary'', JObj [(''accountValue'', JStr ''1250.50'')])])
       = Inr (125050, 0, 125050)
   \<and> check_account_state cents_lib (Inr (JObj []))
       = ([line_checking, ''   Account Value: $0.00'', ''   Margin Used: $0.00'',
           ''   Free Collateral: $0.00'', line_isolated, ''''], Inr ())"
proof -
  have z: "float_of_int cents_lib 0 = Inr 0" "fsub cents_lib 0 0 = 0"
    by (simp_all add: cents_lib_def)
  have s: "fmt2f cents_lib 0 = ''0.00''"
    by (simp add: cents_lib_def show_cents_def digit_char_def)
  have m: "map_of [(''withdrawable'', JStr ''0.0'')] ''marginSummary'' = (None :: int json option)"
    by simp
  have u: "py_float cents_lib (JStr ''250.25'') = Inr 25025"
    and a: "py_float cents_lib (JStr ''1250.50'') = Inr 125050"
    by (simp_all add: cents_lib_def cents_of_str_def)
  have d: "fsub cents_lib 0 25025 = - 25025" "fsub cents_lib 125050 0 = 125050"
    by (simp_all add: cents_lib_def)
  have one: "account_figures cents_lib
         (JObj [(''marginSummary'', JObj [(''totalMarginUsed'', JStr ''250.25'')])])
       = Inr (0, 25025, - 25025)"
    using missing_figures_default_to_zero [OF z,
        where us = "[(''marginSummary'', JObj [(''totalMarginUsed'', JStr ''250.25'')])]"
          and ms = "[(''totalMarginUsed'', JStr ''250.25'')]"
          and u = "JStr ''250.25''" and y = 25025] u d
    by simp
  have two: "account_figures cents_lib
         (JObj [(''marginSummary'', JObj [(''accountValue'', JStr ''1250.50'')])])
       = Inr (125050, 0, 125050)"
    using missing_figures_default_to_zero [OF z,
        where us = "[(''marginSummary'', JObj [(''accountValue'', JStr ''1250.50'')])]"
          and ms = "[(''accountValue'', JStr ''1250.50'')]"
          and a = "JStr ''1250.50''" and x = 125050] a d
    by simp
  from missing_figures_default_to_zero [OF z, of "[(''withdrawable'', JStr ''0.0'')]"] z m one two
  show ?thesis
    by (simp only: s line_account_value_def line_margin_used_def line_free_collateral_def
        append.simps simp_thms)
qed





subsection \<open>The run as a whole\<close>

lemma check_account_state_returns: "snd (check_account_state lib q) = Inr ()"
  by (simp add: check_account_state_def bind_run_print try_except_prints)

lemma main_continues:
  assumes "snd (startup sv cfg) = Inr w"
  shows "main lib sv cfg
     = (fst (startup sv cfg) @ fst (check_account_state lib (info_user_state sv (address w)))
          @ fst (trade lib sv cfg),
        snd (trade lib sv cfg))"
  by (simp add: main_def bind_run_Inr [OF assms]
      bind_run_Inr [OF check_account_state_returns])

lemma check_account_state_raised:
  assumes "account_state_body lib q = (out, Inl e)"
  shows "check_account_state lib q = (line_checking # out @ [line_warning lib e, ''''], Inr ())"
  using assms by (simp add: check_account_state_def bind_run_print try_except_def prints_def)

lemma trade_first_line:
  "\<exists>rest. fst (trade lib sv cfg) = (sym_glass @ '' Getting Asset ID...'') # rest"
  by (simp add: trade_def bind_run_print)

lemma sample_startup: "snd (startup sample_services sample_config) = Inr (Wallet ''0x1f'')"
  by (simp add: startup_def sample_services_def bind_run_prints bind_run_lift_Inr
      load_credentials_def sample_from_key_def hex_key_def hex_digit_def ret_def)

lemma report_result_rejected:
  assumes "map_of r ''status'' \<noteq> Some (JStr ''ok'')"
  shows "report_result lib (JObj r)
     = ([line_rule, sym_outbox @ '' SDK RESPONSE:'', line_rule,
         json_dumps_indent2 lib (JObj r), '''', line_order_failed,
         line_response lib (case map_of r ''response'' of
                              None \<Rightarrow> JStr ''Unknown error'' | Some v \<Rightarrow> v)]
        @ closing_lines, Inr ())"
proof -
  have "(case map_of r ''status'' of None \<Rightarrow> JNull | Some v \<Rightarrow> v) \<noteq> JStr ''ok''"
    using assms by (auto split: option.splits)
  then show ?thesis
    unfolding report_result_def
    by (simp add: bind_run_def lift_def print_def prints_def)
qed

lemma trade_reaches_report:
  assumes "then_exn (info_meta sv) (resolve_asset lib (coin cfg)) = Inr idx"
    and "snd (order_type_info lib (order_type cfg)) = Inr ()"
    and "exchange_order sv (coin cfg) (is_buy cfg) (sz cfg) (limit_px cfg) (order_type cfg)
           (reduce_only cfg) = Inr result"
  shows "snd (trade lib sv cfg) = snd (report_result lib result)
    \<and> (\<exists>pre. fst (trade lib sv cfg) = pre @ fst (report_result lib result))"
  unfolding trade_def
  by (simp add: bind_run_print bind_run_prints assms(1,3) bind_run_lift_Inr
      bind_run_Inr [OF assms(2)])

lemma sample_resolved:
  "then_exn (info_meta sample_services) (resolve_asset cents_lib (coin sample_config)) = Inr 2"
  by (simp add: sample_services_def sample_config_def ORDER_CONFIG_def then_exn_def
      resolve_asset_def sample_assets_def)

lemma sample_label_ok: "snd (order_type_info cents_lib (order_type sample_config)) = Inr ()"
  by (simp add: order_type_info_def bind_run_print
      bind_run_Inr [where x = "()"] sample_config_def ORDER_CONFIG_def
      order_type_label_limits(1) [unfolded limit_ioc_def] print_def)

text \<open>
  C7. The account inspection never lets an exception out. When the query raises, or
  reading its answer does, the lines printed so far are followed by the warning
  \<^verbatim>\<open>Could not check account state:\<close> with the text of the exception, and an empty
  line; \<^verbatim>\<open>main\<close> then goes on with asset resolution, whose heading is the next line
  printed, and order submission: its outcome is the outcome of these later steps.
\<close>

theorem account_inspection_is_not_fatal:
  "snd (check_account_state lib q) = Inr ()
   \<and> check_account_state lib (Inl e)
       = ([[CHR 0xF0, CHR 0x9F, CHR 0x92, CHR 0xB0] @ '' Checking Account State...'',
           ''   '' @ [CHR 0xE2, CHR 0x9A, CHR 0xA0, CHR 0xEF, CHR 0xB8, CHR 0x8F]
             @ ''  Could not check account state: '' @ str_exn lib e,
           ''''], Inr ())
   \<and> (\<forall>out e'. account_state_body lib q = (out, Inl e')
         \<longrightarrow> check_account_state lib q
             = (([CHR 0xF0, CHR 0x9F, CHR 0x92, CHR 0xB0] @ '' Checking Account State...'') # out
                @ [''   '' @ [CHR 0xE2, CHR 0x9A, CHR 0xA0, CHR 0xEF, CHR 0xB8, CHR 0x8F]
                     @ ''  Could not check account state: '' @ str_exn lib e',
                   ''''], Inr ()))
   \<and> (snd (startup sv cfg) = Inr w \<longrightarrow>
        main lib sv cfg
          = (fst (startup sv cfg) @ fst (check_account_state lib (info_user_state sv (address w)))
               @ fst (trade lib sv cfg),
             snd (trade lib sv cfg)))
   \<and> (\<exists>rest. fst (trade lib sv cfg)
         = ([CHR 0xF0, CHR 0x9F, CHR 0x94, CHR 0x8D] @ '' Getting Asset ID...'') # rest)"
proof (intro conjI allI impI)
  show "snd (check_account_state lib q) = Inr ()"
    by (rule check_account_state_returns)
  have "account_state_body lib (Inl e) = ([], Inl e)"
    by (simp add: account_state_body_def bind_run_lift_Inl)
  from check_account_state_raised [OF this]
  show "check_account_state lib (Inl e)
       = ([[CHR 0xF0, CHR 0x9F, CHR 0x92, CHR 0xB0] @ '' Checking Account State...'',
           ''   '' @ [CHR 0xE2, CHR 0x9A, CHR 0xA0, CHR 0xEF, CHR 0xB8, CHR 0x8F]
             @ ''  Could not check account state: '' @ str_exn lib e,
           ''''], Inr ())"
    by (simp add: line_checking_def sym_money_def line_warning_def sym_warning_def)
  from trade_first_line [of lib sv cfg]
  show "\<exists>rest. fst (trade lib sv cfg)
         = ([CHR 0xF0, CHR 0x9F, CHR 0x94, CHR 0x8D] @ '' Getting Asset ID...'') # rest"
    by (auto simp: sym_glass_def)
next
  fix out e'
  assume "account_state_body lib q = (out, Inl e')"
  from check_account_state_raised [OF this]
  show "check_account_state lib q
             = (([CHR 0xF0, CHR 0x9F, CHR 0x92, CHR 0xB0] @ '' Checking Account State...'') # out
                @ [''   '' @ [CHR 0xE2, CHR 0x9A, CHR 0xA0, CHR 0xEF, CHR 0xB8, CHR 0x8F]
                     @ ''  Could not check account state: '' @ str_exn lib e',
                   ''''], Inr ())"
    by (simp add: line_checking_def sym_money_def line_warning_def sym_warning_def)
next
  assume "snd (startup sv cfg) = Inr w"
  then show "main lib sv cfg
     = (fst (startup sv cfg) @ fst (check_account_state lib (info_user_state sv (address w)))
          @ fst (trade lib sv cfg),
        snd (trade lib sv cfg))"
    by (rule main_continues)
qed

theorem account_inspection_is_not_fatal_witness:
  "snd (startup sample_services sample_config) = Inr (Wallet ''0x1f'')
   \<and> info_user_state sample_services ''0x1f'' = Inl (LibraryError ''connection refused'')
   \<and> check_account_state cents_lib (Inl (LibraryError ''connection refused''))
        = ([[CHR 0xF0, CHR 0x9F, CHR 0x92, CHR 0xB0] @ '' Checking Account State...'',
            ''   '' @ [CHR 0xE2, CHR 0x9A, CHR 0xA0, CHR 0xEF, CHR 0xB8, CHR 0x8F]
              @ ''  Could not check account state: connection refused'',
            ''''], Inr ())
   \<and> account_state_body cents_lib (Inr (JObj [(''marginSummary'', JNull)]))
        = ([], Inl (AttributeError ([CHR 0x27] @ ''NoneType'' @ [CHR 0x27]
                 @ '' object has no attribute '' @ [CHR 0x27] @ ''get'' @ [CHR 0x27])))
   \<and> check_account_state cents_lib (Inr (JObj [(''marginSummary'', JNull)]))
        = ([[CHR 0xF0, CHR 0x9F, CHR 0x92, CHR 0xB0] @ '' Checking Account State...'',
            ''   '' @ [CHR 0xE2, CHR 0x9A, CHR 0xA0, CHR 0xEF, CHR 0xB8, CHR 0x8F]
              @ ''  Could not check account state: '' @ [CHR 0x27] @ ''NoneType'' @ [CHR 0x27]
              @ '' object has no attribute '' @ [CHR 0x27] @ ''get'' @ [CHR 0x27],
            ''''], Inr ())
   \<and> main cents_lib sample_services sample_config
        = (fst (startup sample_services sample_config)
             @ [[CHR 0xF0, CHR 0x9F, CHR 0x92, CHR 0xB0] @ '' Checking Account State...'',
                ''   '' @ [CHR 0xE2, CHR 0x9A, CHR 0xA0, CHR 0xEF, CHR 0xB8, CHR 0x8F]
                  @ ''  Could not check account state: connection refused'',
                '''']
             @ fst (trade cents_lib sample_services sample_config),
           snd (trade cents_lib sample_services sample_config))
   \<and> hd (fst (trade cents_lib sample_services sample_config))
        = [CHR 0xF0, CHR 0x9F, CHR 0x94, CHR 0x8D] @ '' Getting Asset ID...''
   \<and> snd (main cents_lib sample_services sample_config) = Inr ()"
proof -
  have q: "info_user_state sample_services ''0x1f'' = Inl (LibraryError ''connection refused'')"
    by (simp add: sample_services_def)
  have b: "account_state_body cents_lib (Inr (JObj [(''marginSummary'', JNull)]))
        = ([], Inl (AttributeError ([CHR 0x27] @ ''NoneType'' @ [CHR 0x27]
                 @ '' object has no attribute '' @ [CHR 0x27] @ ''get'' @ [CHR 0x27])))"
    by (simp add: account_state_body_def bind_run_lift_Inr bind_run_lift_Inl account_figures_def
        then_exn_def quoted_def)
  note t1 = account_inspection_is_not_fatal
    [where lib = cents_lib and q = "Inl (LibraryError ''connection refused'')"
      and e = "LibraryError ''connection refused''"
      and sv = sample_services and cfg = sample_config and w = "Wallet ''0x1f''"]
  note t2 = account_inspection_is_not_fatal
    [where lib = cents_lib and q = "Inr (JObj [(''marginSummary'', JNull)])"]
  from t1 have c1: "check_account_state cents_lib (Inl (LibraryError ''connection refused''))
        = ([[CHR 0xF0, CHR 0x9F, CHR 0x92, CHR 0xB0] @ '' Checking Account State...'',
            ''   '' @ [CHR 0xE2, CHR 0x9A, CHR 0xA0, CHR 0xEF, CHR 0xB8, CHR 0x8F]
              @ ''  Could not check account state: connection refused'',
            ''''], Inr ())"
    by simp
  from t2 b have c2: "check_account_state cents_lib (Inr (JObj [(''marginSummary'', JNull)]))
        = ([[CHR 0xF0, CHR 0x9F, CHR 0x92, CHR 0xB0] @ '' Checking Account State...'',
            ''   '' @ [CHR 0xE2, CHR 0x9A, CHR 0xA0, CHR 0xEF, CHR 0xB8, CHR 0x8F]
              @ ''  Could not check account state: '' @ [CHR 0x27] @ ''NoneType'' @ [CHR 0x27]
              @ '' object has no attribute '' @ [CHR 0x27] @ ''get'' @ [CHR 0x27],
            ''''], Inr ())"
    by simp
  from t1 sample_startup q c1 have m: "main cents_lib sample_services sample_config
        = (fst (startup sample_services sample_config)
             @ [[CHR 0xF0, CHR 0x9F, CHR 0x92, CHR 0xB0] @ '' Checking Account State...'',
                ''   '' @ [CHR 0xE2, CHR 0x9A, CHR 0xA0, CHR 0xEF, CHR 0xB8, CHR 0x8F]
                  @ ''  Could not check account state: connection refused'',
                '''']
             @ fst (trade cents_lib sample_services sample_config),
           snd (trade cents_lib sample_services sample_config))"
    by simp
  from t1 have h: "hd (fst (trade cents_lib sample_services sample_config))
        = [CHR 0xF0, CHR 0x9F, CHR 0x94, CHR 0x8D] @ '' Getting Asset ID...''"
    by auto
  have "snd (trade cents_lib sample_services sample_config)
      = snd (report_result cents_lib (JObj sample_rejection))"
    using trade_reaches_report [of sample_services cents_lib sample_config 2 "JObj sample_rejection"]
      sample_resolved sample_label_ok
    by (simp add: sample_services_def)
  moreover have "snd (report_result cents_lib (JObj sample_rejection)) = Inr ()"
    using report_result_rejected [of sample_rejection cents_lib]
    by (simp add: sample_rejection_def)
  ultimately have e: "snd (main cents_lib sample_services sample_config) = Inr ()"
    using m by simp
  from sample_startup q c1 b c2 m h e show ?thesis by blast
qed



end
